theory Spec2Isabelle
  imports Complex_Main "HOL-Library.Sublist"
begin

section \<open>The route payload\<close>

text \<open>
  A JavaScript \<open>number\<close> is a finite value, one of the two infinities, or \<open>NaN\<close>.
  The component never computes with coordinates: it only asks \<open>isNaN\<close> of them and
  hands them to the map, so the finite ones are taken as reals.
\<close>

datatype jsnum = NaN | PosInfinity | NegInfinity | Finite real

fun isNaN :: "jsnum \<Rightarrow> bool" where
  "isNaN NaN = True"
| "isNaN PosInfinity = False"
| "isNaN NegInfinity = False"
| "isNaN (Finite x) = False"

text \<open>
  What may stand where a coordinate pair \<open>[number, number]\<close> is expected: nothing
  (\<open>undefined\<close>, as \<open>stops[0]\<close> of an empty array), \<open>null\<close>, or an array of numbers
  of any length.
\<close>

datatype jsval = JUndefined | JNull | JArray "jsnum list"

record stop =
  student_id :: int
  student_name :: string
  location :: jsval
  distance_from_previous :: real
  requires_walk :: bool
  walking_distance :: real

record destination =
  latitude :: jsnum
  longitude :: jsnum
  distance_from_last_stop :: real

record route =
  driver_id :: int
  driver_name :: string
  zone_index :: int
  total_students :: int
  total_distance_km :: real
  estimated_time_mins :: real
  estimated_fuel :: real
  stops :: "stop list"
  final_destination :: destination

text \<open>
  The answer of \<open>GET /api/routes/generate\<close>, as \<open>fetchRoutesData\<close> reads it:
  either \<open>fetch\<close> or \<open>response.json()\<close> throws (with a message), or there is a body,
  of which the function looks at \<open>success\<close> (absent, false or true) and at \<open>data\<close>
  (\<open>None\<close> when it is not an array).
\<close>

datatype response = Rejected string | Body "bool option" "route list option"

section \<open>The map surface and the component's state\<close>

datatype marker =
    HomeMarker jsval
  | DriverMarker jsval string
  | StopMarker jsval string string bool string

text \<open>
  \<open>StopMarker coordinates label color requiresWalk studentName\<close> is what
  \<open>addStopMarker\<close> builds: the border is drawn iff \<open>requiresWalk\<close>, the popup reads
  \<open>Stop label: studentName\<close>.
\<close>

fun marker_coordinates :: "marker \<Rightarrow> jsval" where
  "marker_coordinates (HomeMarker c) = c"
| "marker_coordinates (DriverMarker c col) = c"
| "marker_coordinates (StopMarker c l col w n) = c"

text \<open>The layout property \<open>visibility\<close> of a layer: \<open>'visible'\<close> or \<open>'none'\<close>.\<close>

datatype visibility = Visible | Hidden

record line_layer =
  line_coordinates :: "(real \<times> real) list"
  line_color :: string
  line_width :: nat
  visibility :: visibility

text \<open>
  The map library is not part of the repository, so what it does with a coordinate is a
  parameter: \<open>Marker.setLngLat\<close>, \<open>LngLatBounds.extend\<close> and \<open>Map.fitBounds\<close> either
  accept their argument (\<open>None\<close>) or throw an error with a message.
\<close>

record surface =
  setLngLat_error :: "jsval \<Rightarrow> string option"
  extend_error :: "jsval \<Rightarrow> string option"
  fitBounds_error :: "jsval list \<Rightarrow> string option"

text \<open>
  What comes of a directions request when \<open>fetchRouteDirections\<close> resumes after its
  \<open>await\<close>: something thrown inside the \<open>try\<close>, an answer without routes, or the
  geometry of the first route.
\<close>

datatype dir_result = DirFailed | DirNoRoutes | DirGeometry "(real \<times> real) list"

datatype log_entry =
    InvalidRouteDataFormat
  | InvalidCoordinatesForStop stop
  | ErrorFetchingRoutes string
  | NoRoutesFound
  | ErrorFetchingDirections

datatype request = RoutesRequest | DirectionsRequest nat "jsval list"

record fit_call =
  fit_bounds :: "jsval list"
  padding :: nat
  maxZoom :: nat

text \<open>
  The state: the four React state variables, and what the component has done to the
  outside: the markers on the map in the order they were added, the route line layers
  (\<open>layers s i\<close> is the layer \<open>route-layer-i\<close>), the calls of \<open>fitBounds\<close>, the lines of
  \<open>console.error\<close>, the alerts and the HTTP requests. \<open>bounds\<close> is the local
  \<open>LngLatBounds\<close> accumulator of \<open>fetchRoutesData\<close>, kept as the list of coordinates it
  was extended with. \<open>pending\<close> holds the calls of \<open>fetchRouteDirections\<close> that wait for
  their answer, each with the route index and the color it was called with.
\<close>

record view =
  routes :: "route list"
  activeRouteId :: "nat option"
  studentsRequiringWalk :: "stop list"
  allStudentLocations :: "jsval list"
  markers :: "marker list"
  layers :: "nat \<rightharpoonup> line_layer"
  bounds :: "jsval list"
  fitCalls :: "fit_call list"
  console :: "log_entry list"
  alerts :: "string list"
  requests :: "request list"
  pending :: "(nat \<times> string) list"

text \<open>
  A statement either completes or throws; what it did to the state before throwing stays
  done.
\<close>

datatype outcome = Normal view | Thrown string view

fun and_then :: "outcome \<Rightarrow> (view \<Rightarrow> outcome) \<Rightarrow> outcome" where
  "and_then (Normal s) f = f s"
| "and_then (Thrown m s) f = Thrown m s"

fun state_of :: "outcome \<Rightarrow> view" where
  "state_of (Normal s) = s"
| "state_of (Thrown m s) = s"

fun completed :: "outcome \<Rightarrow> bool" where
  "completed (Normal s) = True"
| "completed (Thrown m s) = False"

text \<open>\<open>xs.forEach(f)\<close>: the first exception ends the loop.\<close>

fun foreach :: "('a \<Rightarrow> view \<Rightarrow> outcome) \<Rightarrow> 'a list \<Rightarrow> view \<Rightarrow> outcome" where
  "foreach f [] s = Normal s"
| "foreach f (x # xs) s = and_then (f x s) (foreach f xs)"

text \<open>\<open>xs.forEach((x, index) => ...)\<close>, with the index of the first element given.\<close>

fun foreach_from :: "nat \<Rightarrow> ('a \<Rightarrow> nat \<Rightarrow> view \<Rightarrow> outcome) \<Rightarrow> 'a list \<Rightarrow> view \<Rightarrow> outcome" where
  "foreach_from i f [] s = Normal s"
| "foreach_from i f (x # xs) s = and_then (f x i s) (foreach_from (Suc i) f xs)"

text \<open>\<open>xs[i]\<close> is \<open>undefined\<close> out of range.\<close>

definition js_index :: "jsval list \<Rightarrow> nat \<Rightarrow> jsval" where
  "js_index xs i = (if i < length xs then xs ! i else JUndefined)"

text \<open>The template literal of a non-negative integer: its decimal digits.\<close>

definition digit :: "nat \<Rightarrow> char" where
  "digit d = ''0123456789'' ! d"

fun string_of_nat :: "nat \<Rightarrow> string" where
  "string_of_nat n =
     (if n < 10 then [digit n] else string_of_nat (n div 10) @ [digit (n mod 10)])"

section \<open>Rendering\<close>

definition colors :: "string list" where
  "colors = [''#FF0000'', ''#0000FF'', ''#00FF00'', ''#FF00FF'', ''#00FFFF'']"

definition getRouteColor :: "nat \<Rightarrow> string" where
  "getRouteColor index = colors ! (index mod length colors)"

definition addDriverMarker :: "surface \<Rightarrow> jsval \<Rightarrow> string \<Rightarrow> view \<Rightarrow> outcome" where
  "addDriverMarker surf coordinates color s =
     (case setLngLat_error surf coordinates of
        Some m \<Rightarrow> Thrown m s
      | None \<Rightarrow> Normal (s\<lparr>markers := markers s @ [DriverMarker coordinates color]\<rparr>))"

definition addStopMarker ::
  "surface \<Rightarrow> jsval \<Rightarrow> string \<Rightarrow> string \<Rightarrow> bool \<Rightarrow> string \<Rightarrow> view \<Rightarrow> outcome" where
  "addStopMarker surf coordinates label color requiresWalk studentName s =
     (case setLngLat_error surf coordinates of
        Some m \<Rightarrow> Thrown m s
      | None \<Rightarrow>
          Normal (s\<lparr>markers :=
            markers s @ [StopMarker coordinates label color requiresWalk studentName]\<rparr>))"

definition addStudentHomeMarker :: "surface \<Rightarrow> jsval \<Rightarrow> view \<Rightarrow> outcome" where
  "addStudentHomeMarker surf coordinates s =
     (case setLngLat_error surf coordinates of
        Some m \<Rightarrow> Thrown m s
      | None \<Rightarrow> Normal (s\<lparr>markers := markers s @ [HomeMarker coordinates]\<rparr>))"

text \<open>\<open>bounds.extend(c)\<close>.\<close>

definition bounds_extend :: "surface \<Rightarrow> jsval \<Rightarrow> view \<Rightarrow> outcome" where
  "bounds_extend surf c s =
     (case extend_error surf c of
        Some m \<Rightarrow> Thrown m s
      | None \<Rightarrow> Normal (s\<lparr>bounds := bounds s @ [c]\<rparr>))"

text \<open>
  \<open>fetchRouteDirections\<close> is \<open>async\<close> and nobody awaits it: whatever goes wrong in it
  never reaches its caller. It runs up to its first \<open>await\<close> where it is called: building
  the URL reads \<open>coord[0]\<close> of every coordinate, which throws on \<open>undefined\<close> and \<open>null\<close>
  before the \<open>try\<close> (then no request is sent and nothing is logged); otherwise the
  request is sent and the call waits for the answer.
\<close>

fun has_elements :: "jsval \<Rightarrow> bool" where
  "has_elements (JArray xs) = True"
| "has_elements JUndefined = False"
| "has_elements JNull = False"

definition fetchRouteDirections :: "jsval list \<Rightarrow> jsval \<Rightarrow> nat \<Rightarrow> string \<Rightarrow> view \<Rightarrow> view" where
  "fetchRouteDirections stops' finalDestination routeIndex routeColor s =
     (let coordinates = stops' @ [finalDestination] in
      if \<not> list_all has_elements coordinates then s
      else s\<lparr>requests := requests s @ [DirectionsRequest routeIndex coordinates],
             pending := pending s @ [(routeIndex, routeColor)]\<rparr>)"

text \<open>
  The rest of \<open>fetchRouteDirections\<close> (lines 179 to 213), run when the answer is there,
  after the load and between any two clicks: it logs a failure, or adds the source and
  the line layer of the route; a layer added without a layout is visible.
\<close>

definition resume_fetchRouteDirections :: "dir_result \<Rightarrow> nat \<Rightarrow> string \<Rightarrow> view \<Rightarrow> view" where
  "resume_fetchRouteDirections answer routeIndex routeColor s =
     (case answer of
        DirFailed \<Rightarrow> s\<lparr>console := console s @ [ErrorFetchingDirections]\<rparr>
      | DirNoRoutes \<Rightarrow> s\<lparr>console := console s @ [NoRoutesFound]\<rparr>
      | DirGeometry g \<Rightarrow>
          s\<lparr>layers := (layers s)(routeIndex \<mapsto>
            \<lparr>line_coordinates = g, line_color = routeColor, line_width = 4,
             visibility = Visible\<rparr>)\<rparr>)"

text \<open>The test of lines 131 to 136 on \<open>stop.location\<close>.\<close>

fun valid_coordinates :: "jsval \<Rightarrow> bool" where
  "valid_coordinates (JArray xs) = (length xs = 2 \<and> \<not> isNaN (xs ! 0) \<and> \<not> isNaN (xs ! 1))"
| "valid_coordinates JUndefined = False"
| "valid_coordinates JNull = False"

text \<open>The body of \<open>route.stops.forEach((stop, stopIndex) => ...)\<close>.\<close>

definition place_stop :: "surface \<Rightarrow> string \<Rightarrow> stop \<Rightarrow> nat \<Rightarrow> view \<Rightarrow> outcome" where
  "place_stop surf routeColor st stopIndex s =
     (if valid_coordinates (location st) then
        and_then
          (addStopMarker surf (location st) (string_of_nat (stopIndex + 1)) routeColor
             (requires_walk st) (student_name st) s)
          (bounds_extend surf (location st))
      else Normal (s\<lparr>console := console s @ [InvalidCoordinatesForStop st]\<rparr>))"

text \<open>The body of \<open>validRoutes.forEach((route, index) => ...)\<close>.\<close>

definition render_route :: "surface \<Rightarrow> route \<Rightarrow> nat \<Rightarrow> view \<Rightarrow> outcome" where
  "render_route surf r index s =
     (let stops' = map location (stops r);
          finalDestination =
            JArray [longitude (final_destination r), latitude (final_destination r)];
          routeColor = getRouteColor index
      in
        and_then (addDriverMarker surf (js_index stops' 0) routeColor s) (\<lambda>s.
        and_then (foreach_from 0 (place_stop surf routeColor) (stops r) s) (\<lambda>s.
        and_then (addStopMarker surf finalDestination ''School'' routeColor False ''School'' s) (\<lambda>s.
        and_then (bounds_extend surf finalDestination s) (\<lambda>s.
        Normal (fetchRouteDirections stops' finalDestination index routeColor s))))))"

text \<open>
  The callback of \<open>data.data.map\<close>: it pushes onto the two accumulators and returns the
  route as it is.
\<close>

definition collect_route :: "stop list \<times> jsval list \<Rightarrow> route \<Rightarrow> stop list \<times> jsval list" where
  "collect_route acc r =
     (let studentsWalking = filter requires_walk (stops r) in
      (fst acc @ studentsWalking, foldl (\<lambda>ls st. ls @ [location st]) (snd acc) (stops r)))"

definition home_marker :: "surface \<Rightarrow> jsval \<Rightarrow> view \<Rightarrow> outcome" where
  "home_marker surf loc s = and_then (addStudentHomeMarker surf loc s) (bounds_extend surf loc)"

definition fitBounds :: "surface \<Rightarrow> view \<Rightarrow> outcome" where
  "fitBounds surf s =
     (let s1 = s\<lparr>fitCalls := fitCalls s @ [\<lparr>fit_bounds = bounds s, padding = 20, maxZoom = 15\<rparr>]\<rparr>
      in case fitBounds_error surf (bounds s) of Some m \<Rightarrow> Thrown m s1 | None \<Rightarrow> Normal s1)"

text \<open>The \<open>try\<close> block of \<open>fetchRoutesData\<close>.\<close>

definition try_fetchRoutesData :: "surface \<Rightarrow> response \<Rightarrow> view \<Rightarrow> outcome" where
  "try_fetchRoutesData surf resp s0 =
     (let s = s0\<lparr>requests := requests s0 @ [RoutesRequest]\<rparr> in
      case resp of
        Rejected m \<Rightarrow> Thrown m s
      | Body success data \<Rightarrow>
          (case data of
             None \<Rightarrow>
               Thrown ''Invalid route data format''
                 (s\<lparr>console := console s @ [InvalidRouteDataFormat]\<rparr>)
           | Some rs \<Rightarrow>
               if success \<noteq> Some True then
                 Thrown ''Invalid route data format''
                   (s\<lparr>console := console s @ [InvalidRouteDataFormat]\<rparr>)
               else
                 let acc = foldl collect_route ([], []) rs;
                     validRoutes = rs;
                     s1 = s\<lparr>routes := validRoutes, studentsRequiringWalk := fst acc,
                            allStudentLocations := snd acc, bounds := []\<rparr>
                 in
                   and_then (foreach (home_marker surf) (snd acc) s1) (\<lambda>s.
                   and_then (foreach_from 0 (render_route surf) validRoutes s)
                     (fitBounds surf))))"

text \<open>\<open>fetchRoutesData\<close>: the \<open>catch\<close> logs the error and alerts the user.\<close>

definition fetchRoutesData :: "surface \<Rightarrow> response \<Rightarrow> view \<Rightarrow> view" where
  "fetchRoutesData surf resp s0 =
     (case try_fetchRoutesData surf resp s0 of
        Normal s \<Rightarrow> s
      | Thrown m s \<Rightarrow>
          s\<lparr>console := console s @ [ErrorFetchingRoutes m],
            alerts := alerts s @ [''Failed to fetch routes: '' @ m]\<rparr>)"

section \<open>Selecting a route\<close>

definition set_visibility :: "nat \<Rightarrow> view \<Rightarrow> nat \<Rightarrow> view" where
  "set_visibility routeIndex s index =
     (case layers s index of
        None \<Rightarrow> s
      | Some layer \<Rightarrow>
          s\<lparr>layers := (layers s)(index \<mapsto>
            layer\<lparr>visibility := (if index = routeIndex then Visible else Hidden)\<rparr>)\<rparr>)"

definition handleRouteClick :: "nat \<Rightarrow> view \<Rightarrow> view" where
  "handleRouteClick routeIndex s =
     foldl (set_visibility routeIndex) (s\<lparr>activeRouteId := Some routeIndex\<rparr>)
       [0..<length (routes s)]"

text \<open>
  What happens after the load, in any order: the user clicks a route of the sidebar, or
  the answer to a waiting directions request arrives and its call resumes (an answer for
  a route with no call waiting is no event and changes nothing). \<open>run\<close> takes the events
  oldest first.
\<close>

datatype event = Click nat | Answer nat dir_result

fun step :: "view \<Rightarrow> event \<Rightarrow> view" where
  "step s (Click k) = handleRouteClick k s"
| "step s (Answer i answer) =
     (case map_of (pending s) i of
        None \<Rightarrow> s
      | Some routeColor \<Rightarrow>
          resume_fetchRouteDirections answer i routeColor
            (s\<lparr>pending := filter (\<lambda>p. fst p \<noteq> i) (pending s)\<rparr>))"

definition run :: "event list \<Rightarrow> view \<Rightarrow> view" where
  "run es s = foldl step s es"

fun is_answer :: "event \<Rightarrow> bool" where
  "is_answer (Answer i answer) = True"
| "is_answer (Click k) = False"

text \<open>Every line layer on the map belongs to a route of the list.\<close>

definition layers_of_routes :: "view \<Rightarrow> bool" where
  "layers_of_routes s = (dom (layers s) \<subseteq> {..<length (routes s)})"

definition visible_layers :: "view \<Rightarrow> nat set" where
  "visible_layers s = {i. map_option visibility (layers s i) = Some Visible}"


section \<open>What a load draws\<close>

text \<open>
  The lists the theorems below compare the state with: the numbered markers of a stop
  list (the first stop having index \<open>n\<close>), the markers and the bounds extensions of one
  route, the coordinates of all stops, and the stops whose coordinates fail the test.
\<close>

definition stop_markers :: "string \<Rightarrow> nat \<Rightarrow> stop list \<Rightarrow> marker list" where
  "stop_markers color n sts =
     map (\<lambda>(j, st). StopMarker (location st) (string_of_nat (j + 1)) color
                       (requires_walk st) (student_name st))
       (filter (\<lambda>(j, st). valid_coordinates (location st)) (enumerate n sts))"

definition school_coordinates :: "route \<Rightarrow> jsval" where
  "school_coordinates r = JArray [longitude (final_destination r), latitude (final_destination r)]"

definition route_markers :: "nat \<Rightarrow> route \<Rightarrow> marker list" where
  "route_markers i r =
     DriverMarker (js_index (map location (stops r)) 0) (getRouteColor i)
       # stop_markers (getRouteColor i) 0 (stops r)
       @ [StopMarker (school_coordinates r) ''School'' (getRouteColor i) False ''School'']"

definition route_extensions :: "route \<Rightarrow> jsval list" where
  "route_extensions r = filter valid_coordinates (map location (stops r)) @ [school_coordinates r]"

definition all_locations :: "route list \<Rightarrow> jsval list" where
  "all_locations rs = concat (map (\<lambda>r. map location (stops r)) rs)"

definition invalid_stops :: "route \<Rightarrow> stop list" where
  "invalid_stops r = filter (\<lambda>st. \<not> valid_coordinates (location st)) (stops r)"

definition all_extensions :: "route list \<Rightarrow> jsval list" where
  "all_extensions rs = all_locations rs @ concat (map route_extensions rs)"

text \<open>The numbered stop markers are those of \<open>addStopMarker\<close> but the school's.\<close>

fun is_numbered :: "marker \<Rightarrow> bool" where
  "is_numbered (StopMarker c l col w n) = (l \<noteq> ''School'')"
| "is_numbered (HomeMarker c) = False"
| "is_numbered (DriverMarker c col) = False"

text \<open>The state when the derived lists are stored and the drawing begins (line 108).\<close>

definition start_render :: "route list \<Rightarrow> view \<Rightarrow> view" where
  "start_render rs s0 =
     s0\<lparr>requests := requests s0 @ [RoutesRequest], routes := rs,
        studentsRequiringWalk := concat (map (\<lambda>r. filter requires_walk (stops r)) rs),
        allStudentLocations := all_locations rs, bounds := []\<rparr>"

text \<open>Markers and bounds extensions are only ever added.\<close>

definition grows :: "view \<Rightarrow> view \<Rightarrow> bool" where
  "grows s s' = (prefix (markers s) (markers s') \<and> prefix (bounds s) (bounds s'))"

text \<open>
  Two states that differ at most in their line layers, console, requests and waiting
  directions calls.
\<close>

definition same_drawing :: "view \<Rightarrow> view \<Rightarrow> bool" where
  "same_drawing s t =
     (routes s = routes t \<and> activeRouteId s = activeRouteId t
      \<and> studentsRequiringWalk s = studentsRequiringWalk t
      \<and> allStudentLocations s = allStudentLocations t
      \<and> markers s = markers t \<and> bounds s = bounds t \<and> fitCalls s = fitCalls t
      \<and> alerts s = alerts t)"

fun is_invalid_log :: "log_entry \<Rightarrow> bool" where
  "is_invalid_log (InvalidCoordinatesForStop st) = True"
| "is_invalid_log InvalidRouteDataFormat = False"
| "is_invalid_log (ErrorFetchingRoutes m) = False"
| "is_invalid_log NoRoutesFound = False"
| "is_invalid_log ErrorFetchingDirections = False"

section \<open>Sample inputs\<close>

definition mk_stop :: "int \<Rightarrow> string \<Rightarrow> jsval \<Rightarrow> bool \<Rightarrow> stop" where
  "mk_stop i name loc walk =
     \<lparr>student_id = i, student_name = name, location = loc, distance_from_previous = 0,
      requires_walk = walk, walking_distance = (if walk then 50 else 0)\<rparr>"

definition mk_route :: "int \<Rightarrow> string \<Rightarrow> stop list \<Rightarrow> real \<Rightarrow> real \<Rightarrow> route" where
  "mk_route i name sts lng lat =
     \<lparr>driver_id = i, driver_name = name, zone_index = i, total_students = int (length sts),
      total_distance_km = 0, estimated_time_mins = 0, estimated_fuel = 0, stops = sts,
      final_destination =
        \<lparr>latitude = Finite lat, longitude = Finite lng, distance_from_last_stop = 0\<rparr>\<rparr>"

definition lnglat :: "real \<Rightarrow> real \<Rightarrow> jsval" where
  "lnglat x y = JArray [Finite x, Finite y]"

text \<open>Two routes of three and two stops, one stop of which requires a walk.\<close>

definition demo_routes :: "route list" where
  "demo_routes =
     [mk_route 1 ''Dana''
        [mk_stop 1 ''Ann'' (lnglat 10 20) False, mk_stop 2 ''Bob'' (lnglat 11 21) True,
         mk_stop 3 ''Cy'' (lnglat 12 22) False] 15 25,
      mk_route 2 ''Eli''
        [mk_stop 4 ''Di'' (lnglat 30 40) False, mk_stop 5 ''Ed'' (lnglat 31 41) False] 35 45]"

text \<open>A route whose first stop has an infinite longitude.\<close>

definition far_routes :: "route list" where
  "far_routes = [mk_route 1 ''Dana'' [mk_stop 1 ''Ann'' (JArray [PosInfinity, Finite 0]) False] 15 25]"

text \<open>A route whose first stop has the coordinates \<open>[NaN, 12.3]\<close>, the second a good pair.\<close>

definition nan_routes :: "route list" where
  "nan_routes =
     [mk_route 1 ''Dana''
        [mk_stop 1 ''Ann'' (JArray [NaN, Finite 12.3]) False, mk_stop 2 ''Bob'' (lnglat 11 21) False]
        15 25]"

text \<open>A route without stops, after a route with one.\<close>

definition empty_routes :: "route list" where
  "empty_routes =
     [mk_route 1 ''Dana'' [mk_stop 1 ''Ann'' (lnglat 10 20) False] 15 25,
      mk_route 2 ''Eli'' [] 35 45]"

text \<open>A route whose first stop carries three numbers (an altitude), the second a pair.\<close>

definition altitude_routes :: "route list" where
  "altitude_routes =
     [mk_route 1 ''Dana''
        [mk_stop 1 ''Ann'' (JArray [Finite 10, Finite 20, Finite 300]) False,
         mk_stop 2 ''Bob'' (lnglat 11 21) False] 15 25]"

text \<open>
  A map surface that refuses whatever is not an array of two or three numbers of which
  the first two are not \<open>NaN\<close>, and fits any bounds.
\<close>

fun refused :: "jsval \<Rightarrow> string option" where
  "refused (JArray xs) =
     (if (length xs = 2 \<or> length xs = 3) \<and> \<not> isNaN (xs ! 0) \<and> \<not> isNaN (xs ! 1) then None
      else Some ''Invalid LngLat object'')"
| "refused JUndefined = Some ''Invalid LngLat object''"
| "refused JNull = Some ''Invalid LngLat object''"

definition strict :: surface where
  "strict = \<lparr>setLngLat_error = refused, extend_error = refused, fitBounds_error = (\<lambda>bs. None)\<rparr>"

text \<open>The component when the map has just loaded.\<close>

definition initial_view :: view where
  "initial_view =
     \<lparr>routes = [], activeRouteId = None, studentsRequiringWalk = [], allStudentLocations = [],
      markers = [], layers = Map.empty, bounds = [], fitCalls = [], console = [], alerts = [],
      requests = [], pending = []\<rparr>"

section \<open>Loops and exceptions\<close>

declare string_of_nat.simps [simp del]

lemma and_then_Normal_iff:
  "and_then out f = Normal s' \<longleftrightarrow> (\<exists>s1. out = Normal s1 \<and> f s1 = Normal s')"
  by (cases out) auto

lemma completed_iff: "completed out \<longleftrightarrow> (\<exists>s. out = Normal s)"
  by (cases out) auto


text \<open>
  What no step of a loop changes, the loop does not change; where one element always throws, the loop does not complete.
\<close>

lemma and_then_state_inv:
  assumes "\<And>s. g (state_of (f s)) = g s"
  shows "g (state_of (and_then out f)) = g (state_of out)"
  using assms by (cases out) auto

lemma foreach_state_inv:
  assumes "\<And>x s. g (state_of (f x s)) = g s"
  shows "g (state_of (foreach f xs s)) = g s"
proof (induction xs arbitrary: s)
  case Nil
  show ?case by simp
next
  case (Cons x xs)
  show ?case
  proof (cases "f x s")
    case (Normal s1)
    with Cons.IH [of s1] assms [of x s] show ?thesis by simp
  next
    case (Thrown m s1)
    with assms [of x s] show ?thesis by simp
  qed
qed

lemma foreach_from_state_inv:
  assumes "\<And>x i s. g (state_of (f x i s)) = g s"
  shows "g (state_of (foreach_from n f xs s)) = g s"
proof (induction xs arbitrary: s n)
  case Nil
  show ?case by simp
next
  case (Cons x xs)
  show ?case
  proof (cases "f x n s")
    case (Normal s1)
    with Cons.IH [of "Suc n" s1] assms [of x n s] show ?thesis by simp
  next
    case (Thrown m s1)
    with assms [of x n s] show ?thesis by simp
  qed
qed

lemma foreach_from_not_completed:
  assumes "x \<in> set xs" and "\<And>i s. \<not> completed (f x i s)"
  shows "\<not> completed (foreach_from n f xs s)"
  using assms(1)
proof (induction xs arbitrary: n s)
  case Nil
  then show ?case by simp
next
  case (Cons a xs)
  show ?case
  proof (cases "f a n s")
    case (Normal s1)
    with Cons assms(2) [of n s] show ?thesis by auto
  next
    case (Thrown m s1)
    then show ?thesis by simp
  qed
qed

lemma foreach_not_completed:
  assumes "x \<in> set xs" and "\<And>s. \<not> completed (f x s)"
  shows "\<not> completed (foreach f xs s)"
  using assms(1)
proof (induction xs arbitrary: s)
  case Nil
  then show ?case by simp
next
  case (Cons a xs)
  show ?case
  proof (cases "f a s")
    case (Normal s1)
    with Cons assms(2) [of s] show ?thesis by auto
  next
    case (Thrown m s1)
    then show ?thesis by simp
  qed
qed

text \<open>
  Markers and bounds only grow.
\<close>

lemma grows_refl: "grows s s"
  by (simp add: grows_def)

lemma grows_trans: "grows a b \<Longrightarrow> grows b c \<Longrightarrow> grows a c"
  by (auto simp: grows_def)

lemma and_then_grows:
  assumes "grows s (state_of out)" and "\<And>s1. grows s1 (state_of (f s1))"
  shows "grows s (state_of (and_then out f))"
proof (cases out)
  case (Normal s1)
  with assms(1) assms(2) [of s1] show ?thesis by (auto intro: grows_trans)
next
  case (Thrown m s1)
  with assms(1) show ?thesis by simp
qed

lemma foreach_from_grows:
  assumes "\<And>x i s. grows s (state_of (f x i s))"
  shows "grows s (state_of (foreach_from n f xs s))"
proof (induction xs arbitrary: n s)
  case Nil
  show ?case by (simp add: grows_refl)
next
  case (Cons x xs)
  show ?case
    unfolding foreach_from.simps
    by (rule and_then_grows) (rule assms, rule Cons.IH)
qed

section \<open>The steps of a load\<close>

subsection \<open>The derived lists\<close>

lemma foldl_locations: "foldl (\<lambda>ls st. ls @ [location st]) acc sts = acc @ map location sts"
  by (induction sts arbitrary: acc) auto

lemma foldl_collect_route:
  "foldl collect_route acc rs =
     (fst acc @ concat (map (\<lambda>r. filter requires_walk (stops r)) rs),
      snd acc @ concat (map (\<lambda>r. map location (stops r)) rs))"
  by (induction rs arbitrary: acc) (auto simp: collect_route_def foldl_locations)

subsection \<open>Home markers\<close>

lemma home_marker_Normal:
  "home_marker surf c s = Normal s' \<Longrightarrow>
     s' = s\<lparr>markers := markers s @ [HomeMarker c], bounds := bounds s @ [c]\<rparr>
     \<and> setLngLat_error surf c = None \<and> extend_error surf c = None"
  by (auto simp: home_marker_def addStudentHomeMarker_def bounds_extend_def and_then_Normal_iff
      split: option.splits)

lemma foreach_home_Normal:
  "foreach (home_marker surf) locs s = Normal s' \<Longrightarrow>
     s' = s\<lparr>markers := markers s @ map HomeMarker locs, bounds := bounds s @ locs\<rparr>"
proof (induction locs arbitrary: s)
  case Nil
  then show ?case by simp
next
  case (Cons c locs)
  then obtain s1 where 1: "home_marker surf c s = Normal s1"
    and 2: "foreach (home_marker surf) locs s1 = Normal s'"
    by (auto simp: and_then_Normal_iff)
  from home_marker_Normal [OF 1] Cons.IH [OF 2] show ?case by simp
qed

lemma foreach_home_accepted:
  assumes "\<forall>c\<in>set locs. setLngLat_error surf c = None \<and> extend_error surf c = None"
  shows "foreach (home_marker surf) locs s =
     Normal (s\<lparr>markers := markers s @ map HomeMarker locs, bounds := bounds s @ locs\<rparr>)"
  using assms
proof (induction locs arbitrary: s)
  case Nil
  show ?case by simp
next
  case (Cons c locs)
  then have 1: "home_marker surf c s =
      Normal (s\<lparr>markers := markers s @ [HomeMarker c], bounds := bounds s @ [c]\<rparr>)"
    by (simp add: home_marker_def addStudentHomeMarker_def bounds_extend_def)
  from Cons show ?case
    by (simp add: 1)
qed

lemma home_marker_inv:
  assumes "\<And>f s. g (markers_update f s) = g s"
    and "\<And>f s. g (bounds_update f s) = g s"
  shows "g (state_of (home_marker surf c s)) = g s"
  using assms
  by (auto simp: home_marker_def addStudentHomeMarker_def bounds_extend_def split: option.splits)

lemma foreach_home_inv:
  assumes "\<And>f s. g (markers_update f s) = g s" and "\<And>f s. g (bounds_update f s) = g s"
  shows "g (state_of (foreach (home_marker surf) locs s)) = g s"
  by (rule foreach_state_inv) (rule home_marker_inv [OF assms])

lemma home_marker_numbered:
  "filter is_numbered (markers (state_of (home_marker surf c s))) = filter is_numbered (markers s)"
  by (simp add: home_marker_def addStudentHomeMarker_def bounds_extend_def split: option.splits)

subsection \<open>The markers of a route\<close>

lemma place_stop_Normal:
  "place_stop surf c st j s = Normal s' \<Longrightarrow>
     s' = s\<lparr>markers := markers s @ stop_markers c j [st],
            bounds := bounds s @ filter valid_coordinates [location st],
            console := console s @ map InvalidCoordinatesForStop
               (filter (\<lambda>st. \<not> valid_coordinates (location st)) [st])\<rparr>"
  by (auto simp: place_stop_def addStopMarker_def bounds_extend_def and_then_Normal_iff stop_markers_def
      split: option.splits if_splits)

lemma stop_markers_Cons:
  "stop_markers c j (st # sts) = stop_markers c j [st] @ stop_markers c (Suc j) sts"
  by (simp add: stop_markers_def)

lemma foreach_place_stop_Normal:
  "foreach_from j (place_stop surf c) sts s = Normal s' \<Longrightarrow>
     s' = s\<lparr>markers := markers s @ stop_markers c j sts,
            bounds := bounds s @ filter valid_coordinates (map location sts),
            console := console s @ map InvalidCoordinatesForStop
               (filter (\<lambda>st. \<not> valid_coordinates (location st)) sts)\<rparr>"
proof (induction sts arbitrary: s j)
  case Nil
  then show ?case by (simp add: stop_markers_def)
next
  case (Cons st sts)
  then obtain s1 where 1: "place_stop surf c st j s = Normal s1"
    and 2: "foreach_from (Suc j) (place_stop surf c) sts s1 = Normal s'"
    by (auto simp: and_then_Normal_iff)
  show ?case
    unfolding Cons.IH [OF 2] place_stop_Normal [OF 1] stop_markers_Cons [of c j st sts]
    by simp
qed

lemma place_stop_inv:
  assumes "\<And>f s. g (markers_update f s) = g s"
    and "\<And>f s. g (bounds_update f s) = g s"
    and "\<And>f s. g (console_update f s) = g s"
  shows "g (state_of (place_stop surf c st j s)) = g s"
  using assms
  by (auto simp: place_stop_def addStopMarker_def bounds_extend_def split: option.splits)

lemma fetchRouteDirections_inv:
  assumes "\<And>f s. g (requests_update f s) = g s"
    and "\<And>f s. g (pending_update f s) = g s"
  shows "g (fetchRouteDirections sts fd i c s) = g s"
  using assms
  by (auto simp: fetchRouteDirections_def Let_def)

lemma render_route_inv:
  assumes m: "\<And>f s. g (markers_update f s) = g s"
    and b: "\<And>f s. g (bounds_update f s) = g s"
    and c: "\<And>f s. g (console_update f s) = g s"
    and r: "\<And>f s. g (requests_update f s) = g s"
    and l: "\<And>f s. g (pending_update f s) = g s"
  shows "g (state_of (render_route surf rt i s)) = g s"
proof -
  have stops: "\<And>col s. g (state_of (foreach_from 0 (place_stop surf col) (stops rt) s)) = g s"
    by (rule foreach_from_state_inv) (rule place_stop_inv [OF m b c])
  have dm: "\<And>x col s. g (state_of (addDriverMarker surf x col s)) = g s"
    by (auto simp: addDriverMarker_def m split: option.splits)
  have sm: "\<And>x la col w n s. g (state_of (addStopMarker surf x la col w n s)) = g s"
    by (auto simp: addStopMarker_def m split: option.splits)
  have ex: "\<And>x s. g (state_of (bounds_extend surf x s)) = g s"
    by (auto simp: bounds_extend_def b split: option.splits)
  show ?thesis
    unfolding render_route_def Let_def
    by (simp add: and_then_state_inv stops dm sm ex fetchRouteDirections_inv [OF r l])
qed

lemma foreach_render_route_inv:
  assumes "\<And>f s. g (markers_update f s) = g s"
    and "\<And>f s. g (bounds_update f s) = g s"
    and "\<And>f s. g (console_update f s) = g s"
    and "\<And>f s. g (requests_update f s) = g s"
    and "\<And>f s. g (pending_update f s) = g s"
  shows "g (state_of (foreach_from n (render_route surf) rs s)) = g s"
  by (rule foreach_from_state_inv) (rule render_route_inv [OF assms])

lemma render_route_Normal:
  assumes "render_route surf r i s = Normal s'"
  shows "s' = fetchRouteDirections (map location (stops r)) (school_coordinates r) i (getRouteColor i)
           (s\<lparr>markers := markers s @ route_markers i r,
              bounds := bounds s @ route_extensions r,
              console := console s @ map InvalidCoordinatesForStop (invalid_stops r)\<rparr>)"
proof -
  from assms obtain s1 s2 s3 s4 where
    1: "addDriverMarker surf (js_index (map location (stops r)) 0) (getRouteColor i) s = Normal s1"
    and 2: "foreach_from 0 (place_stop surf (getRouteColor i)) (stops r) s1 = Normal s2"
    and 3: "addStopMarker surf (school_coordinates r) ''School'' (getRouteColor i) False ''School'' s2
              = Normal s3"
    and 4: "bounds_extend surf (school_coordinates r) s3 = Normal s4"
    and 5: "s' = fetchRouteDirections (map location (stops r)) (school_coordinates r) i
                  (getRouteColor i) s4"
    unfolding render_route_def Let_def school_coordinates_def and_then_Normal_iff by auto
  from 1 have s1: "s1 = s\<lparr>markers := markers s @
      [DriverMarker (js_index (map location (stops r)) 0) (getRouteColor i)]\<rparr>"
    by (auto simp: addDriverMarker_def split: option.splits)
  from 3 have s3: "s3 = s2\<lparr>markers := markers s2 @
      [StopMarker (school_coordinates r) ''School'' (getRouteColor i) False ''School'']\<rparr>"
    by (auto simp: addStopMarker_def split: option.splits)
  from 4 have s4: "s4 = s3\<lparr>bounds := bounds s3 @ [school_coordinates r]\<rparr>"
    by (auto simp: bounds_extend_def split: option.splits)
  show ?thesis
    unfolding 5 s4 s3 foreach_place_stop_Normal [OF 2] s1
    by (cases s) (simp add: route_markers_def route_extensions_def invalid_stops_def)
qed

lemma render_route_Normal_fields:
  assumes "render_route surf r i s = Normal s'"
  shows "markers s' = markers s @ route_markers i r"
    and "bounds s' = bounds s @ route_extensions r"
    and "filter is_invalid_log (console s') =
           filter is_invalid_log (console s) @ map InvalidCoordinatesForStop (invalid_stops r)"
  unfolding render_route_Normal [OF assms]
  by (simp_all add: fetchRouteDirections_def Let_def)

lemma foreach_render_route_Normal:
  "foreach_from n (render_route surf) rs s = Normal s' \<Longrightarrow>
     markers s' = markers s @ concat (map (\<lambda>(i, r). route_markers i r) (enumerate n rs))
     \<and> bounds s' = bounds s @ concat (map route_extensions rs)
     \<and> filter is_invalid_log (console s') =
         filter is_invalid_log (console s)
           @ map InvalidCoordinatesForStop (concat (map invalid_stops rs))"
proof (induction rs arbitrary: s n)
  case Nil
  then show ?case by simp
next
  case (Cons r rs)
  then obtain s1 where 1: "render_route surf r n s = Normal s1"
    and 2: "foreach_from (Suc n) (render_route surf) rs s1 = Normal s'"
    by (auto simp: and_then_Normal_iff)
  from Cons.IH [OF 2] render_route_Normal_fields [OF 1] show ?case by simp
qed

lemma render_route_no_stops:
  assumes "stops r = []" and "setLngLat_error surf JUndefined = Some m"
  shows "render_route surf r i s = Thrown m s"
  using assms by (simp add: render_route_def js_index_def addDriverMarker_def)

subsection \<open>Fitting the bounds\<close>

lemma fitBounds_Normal:
  "fitBounds surf s = Normal s' \<Longrightarrow>
     s' = s\<lparr>fitCalls := fitCalls s @ [\<lparr>fit_bounds = bounds s, padding = 20, maxZoom = 15\<rparr>]\<rparr>"
  by (auto simp: fitBounds_def Let_def split: option.splits)

lemma fitBounds_inv:
  assumes "\<And>f s. g (fitCalls_update f s) = g s"
  shows "g (state_of (fitBounds surf s)) = g s"
  using assms by (auto simp: fitBounds_def Let_def split: option.splits)

subsection \<open>Growth\<close>

lemma addStopMarker_grows: "grows s (state_of (addStopMarker surf c la col w n s))"
  by (simp add: addStopMarker_def grows_def split: option.splits)

lemma addDriverMarker_grows: "grows s (state_of (addDriverMarker surf c col s))"
  by (simp add: addDriverMarker_def grows_def split: option.splits)

lemma bounds_extend_grows: "grows s (state_of (bounds_extend surf c s))"
  by (simp add: bounds_extend_def grows_def split: option.splits)

lemma place_stop_grows: "grows s (state_of (place_stop surf col st j s))"
  by (simp add: place_stop_def and_then_grows addStopMarker_grows bounds_extend_grows)
     (simp add: grows_def)

lemma fetchRouteDirections_grows: "grows s (fetchRouteDirections sts fd i c s)"
  by (simp add: fetchRouteDirections_inv [of markers] fetchRouteDirections_inv [of bounds] grows_def)

lemma render_route_grows: "grows s (state_of (render_route surf r i s))"
  unfolding render_route_def Let_def
  by (intro and_then_grows addDriverMarker_grows foreach_from_grows place_stop_grows
      addStopMarker_grows bounds_extend_grows) (simp add: fetchRouteDirections_grows)

lemma fitBounds_grows: "grows s (state_of (fitBounds surf s))"
  by (simp add: fitBounds_inv [of markers] fitBounds_inv [of bounds] grows_def)

subsection \<open>The waiting directions calls\<close>




section \<open>The load as a whole\<close>

lemma try_fetchRoutesData_unfold:
  "try_fetchRoutesData surf (Body (Some True) (Some rs)) s0 =
     and_then (foreach (home_marker surf) (all_locations rs) (start_render rs s0)) (\<lambda>s.
     and_then (foreach_from 0 (render_route surf) rs s) (fitBounds surf))"
  by (simp add: try_fetchRoutesData_def foldl_collect_route all_locations_def start_render_def Let_def)

text \<open>
  What the drawing never touches keeps the value it had when the drawing began.
\<close>

lemma try_fetchRoutesData_inv:
  assumes m: "\<And>f s. g (markers_update f s) = g s"
    and b: "\<And>f s. g (bounds_update f s) = g s"
    and c: "\<And>f s. g (console_update f s) = g s"
    and r: "\<And>f s. g (requests_update f s) = g s"
    and l: "\<And>f s. g (pending_update f s) = g s"
    and f: "\<And>f s. g (fitCalls_update f s) = g s"
  shows "g (state_of (try_fetchRoutesData surf (Body (Some True) (Some rs)) s0)) = g (start_render rs s0)"
proof -
  have "g (state_of (and_then (foreach_from 0 (render_route surf) rs s) (fitBounds surf))) = g s" for s
    using and_then_state_inv [of g "fitBounds surf", OF fitBounds_inv [of g, OF f]]
      foreach_render_route_inv [of g, OF m b c r l]
    by simp
  then show ?thesis
    unfolding try_fetchRoutesData_unfold
    using and_then_state_inv [of g "\<lambda>s. and_then (foreach_from 0 (render_route surf) rs s) (fitBounds surf)"]
      foreach_home_inv [of g, OF m b]
    by simp
qed

lemma fetchRoutesData_inv:
  assumes m: "\<And>f s. g (markers_update f s) = g s"
    and b: "\<And>f s. g (bounds_update f s) = g s"
    and c: "\<And>f s. g (console_update f s) = g s"
    and r: "\<And>f s. g (requests_update f s) = g s"
    and l: "\<And>f s. g (pending_update f s) = g s"
    and f: "\<And>f s. g (fitCalls_update f s) = g s"
    and a: "\<And>f s. g (alerts_update f s) = g s"
  shows "g (fetchRoutesData surf (Body (Some True) (Some rs)) s0) = g (start_render rs s0)"
proof -
  have "g (fetchRoutesData surf (Body (Some True) (Some rs)) s0) =
        g (state_of (try_fetchRoutesData surf (Body (Some True) (Some rs)) s0))"
    by (cases "try_fetchRoutesData surf (Body (Some True) (Some rs)) s0")
       (simp_all add: fetchRoutesData_def a c)
  then show ?thesis
    by (simp add: try_fetchRoutesData_inv [of g, OF m b c r l f])
qed

lemma fetchRoutesData_completed:
  "try_fetchRoutesData surf resp s0 = Normal s' \<Longrightarrow> fetchRoutesData surf resp s0 = s'"
  by (simp add: fetchRoutesData_def)

lemma fetchRoutesData_markers_bounds:
  "markers (fetchRoutesData surf resp s0) = markers (state_of (try_fetchRoutesData surf resp s0))"
  "bounds (fetchRoutesData surf resp s0) = bounds (state_of (try_fetchRoutesData surf resp s0))"
  by (cases "try_fetchRoutesData surf resp s0"; simp add: fetchRoutesData_def)+

text \<open>
  The state after a load that ran to its end.
\<close>

lemma try_fetchRoutesData_Normal:
  assumes "try_fetchRoutesData surf (Body (Some True) (Some rs)) s0 = Normal s'"
  shows "markers s' = markers s0 @ map HomeMarker (all_locations rs)
           @ concat (map (\<lambda>(i, r). route_markers i r) (enumerate 0 rs))"
    and "bounds s' = all_extensions rs"
    and "fitCalls s' = fitCalls s0 @ [\<lparr>fit_bounds = all_extensions rs, padding = 20, maxZoom = 15\<rparr>]"
    and "filter is_invalid_log (console s') =
           filter is_invalid_log (console s0)
             @ map InvalidCoordinatesForStop (concat (map invalid_stops rs))"
proof -
  from assms obtain s2 s3 where
    2: "foreach (home_marker surf) (all_locations rs) (start_render rs s0) = Normal s2"
    and 3: "foreach_from 0 (render_route surf) rs s2 = Normal s3"
    and 4: "fitBounds surf s3 = Normal s'"
    unfolding try_fetchRoutesData_unfold and_then_Normal_iff by blast
  note h = foreach_home_Normal [OF 2]
  note r = foreach_render_route_Normal [OF 3]
  note f = fitBounds_Normal [OF 4]
  have fc: "fitCalls s3 = fitCalls s0"
    using foreach_render_route_inv [where g = fitCalls and surf = surf and n = 0
        and rs = rs and s = s2] 3
    by (simp add: h start_render_def)
  from r show "markers s' = markers s0 @ map HomeMarker (all_locations rs)
           @ concat (map (\<lambda>(i, r). route_markers i r) (enumerate 0 rs))"
    by (simp add: f h start_render_def)
  from r show b: "bounds s' = all_extensions rs"
    by (simp add: f h start_render_def all_extensions_def)
  from r fc show "fitCalls s' = fitCalls s0 @ [\<lparr>fit_bounds = all_extensions rs, padding = 20, maxZoom = 15\<rparr>]"
    by (simp add: f h start_render_def all_extensions_def)
  from r show "filter is_invalid_log (console s') =
           filter is_invalid_log (console s0)
             @ map InvalidCoordinatesForStop (concat (map invalid_stops rs))"
    by (simp add: f h start_render_def)
qed

text \<open>
  A load whose routes cannot all be drawn throws before it fits the bounds.
\<close>

lemma try_fetchRoutesData_thrown:
  assumes "\<And>s. \<not> completed (foreach_from 0 (render_route surf) rs s)"
  shows "\<exists>m s'. try_fetchRoutesData surf (Body (Some True) (Some rs)) s0 = Thrown m s'
           \<and> fitCalls s' = fitCalls s0 \<and> alerts s' = alerts s0"
proof (cases "foreach (home_marker surf) (all_locations rs) (start_render rs s0)")
  case (Normal s2)
  from foreach_home_inv [of fitCalls surf "all_locations rs" "start_render rs s0"]
    foreach_home_inv [of alerts surf "all_locations rs" "start_render rs s0"] Normal
  have 2: "fitCalls s2 = fitCalls s0" "alerts s2 = alerts s0"
    by (simp_all add: start_render_def)
  from assms [of s2] obtain m s3 where 3: "foreach_from 0 (render_route surf) rs s2 = Thrown m s3"
    by (cases "foreach_from 0 (render_route surf) rs s2") auto
  from foreach_render_route_inv [where g = fitCalls and surf = surf and n = 0 and rs = rs and s = s2]
    foreach_render_route_inv [where g = alerts and surf = surf and n = 0 and rs = rs and s = s2] 3
  have "fitCalls s3 = fitCalls s2" "alerts s3 = alerts s2" by simp_all
  with 2 3 Normal show ?thesis
    by (simp add: try_fetchRoutesData_unfold)
next
  case (Thrown m s2)
  from foreach_home_inv [of fitCalls surf "all_locations rs" "start_render rs s0"]
    foreach_home_inv [of alerts surf "all_locations rs" "start_render rs s0"] Thrown
  have "fitCalls s2 = fitCalls s0" "alerts s2 = alerts s0"
    by (simp_all add: start_render_def)
  with Thrown show ?thesis
    by (simp add: try_fetchRoutesData_unfold)
qed

text \<open>
  Where the map refuses the coordinates of one stop for a marker, the load throws while
  it places the home markers: no numbered marker is placed for any stop of any route,
  the bounds are not fitted and the user is alerted.
\<close>

lemma refused_location_aborts:
  assumes "r \<in> set rs" and "st \<in> set (stops r)" and "setLngLat_error surf (location st) \<noteq> None"
  shows "\<not> completed (try_fetchRoutesData surf (Body (Some True) (Some rs)) s0)"
    and "filter is_numbered (markers (fetchRoutesData surf (Body (Some True) (Some rs)) s0))
           = filter is_numbered (markers s0)"
    and "fitCalls (fetchRoutesData surf (Body (Some True) (Some rs)) s0) = fitCalls s0"
    and "length (alerts (fetchRoutesData surf (Body (Some True) (Some rs)) s0)) = length (alerts s0) + 1"
proof -
  from assms(1,2) have "location st \<in> set (all_locations rs)"
    by (auto simp: all_locations_def)
  moreover from assms(3) have "\<not> completed (home_marker surf (location st) s)" for s
    by (auto simp: home_marker_def addStudentHomeMarker_def)
  ultimately have "\<not> completed (foreach (home_marker surf) (all_locations rs) (start_render rs s0))"
    by (rule foreach_not_completed)
  then obtain m s2 where
    2: "foreach (home_marker surf) (all_locations rs) (start_render rs s0) = Thrown m s2"
    by (cases "foreach (home_marker surf) (all_locations rs) (start_render rs s0)") auto
  then have t: "try_fetchRoutesData surf (Body (Some True) (Some rs)) s0 = Thrown m s2"
    by (simp add: try_fetchRoutesData_unfold)
  from foreach_state_inv [of "\<lambda>s. filter is_numbered (markers s)" "home_marker surf"
      "all_locations rs" "start_render rs s0", OF home_marker_numbered] 2
  have n: "filter is_numbered (markers s2) = filter is_numbered (markers s0)"
    by (simp add: start_render_def)
  from foreach_home_inv [of fitCalls surf "all_locations rs" "start_render rs s0"]
    foreach_home_inv [of alerts surf "all_locations rs" "start_render rs s0"] 2
  have f: "fitCalls s2 = fitCalls s0" "alerts s2 = alerts s0"
    by (simp_all add: start_render_def)
  from t show "\<not> completed (try_fetchRoutesData surf (Body (Some True) (Some rs)) s0)"
    by simp
  from t n show "filter is_numbered (markers (fetchRoutesData surf (Body (Some True) (Some rs)) s0))
           = filter is_numbered (markers s0)"
    by (simp add: fetchRoutesData_def)
  from t f show "fitCalls (fetchRoutesData surf (Body (Some True) (Some rs)) s0) = fitCalls s0"
    by (simp add: fetchRoutesData_def)
  from t f show "length (alerts (fetchRoutesData surf (Body (Some True) (Some rs)) s0)) = length (alerts s0) + 1"
    by (simp add: fetchRoutesData_def)
qed

text \<open>
  A route without stops stops the load on a map that refuses \<open>undefined\<close>.
\<close>

lemma no_stops_not_completed:
  assumes "r \<in> set rs" and "stops r = []" and "setLngLat_error surf JUndefined \<noteq> None"
  shows "\<not> completed (try_fetchRoutesData surf (Body (Some True) (Some rs)) s0)"
proof -
  from assms(3) obtain m where m: "setLngLat_error surf JUndefined = Some m" by auto
  have "\<not> completed (render_route surf r i s)" for i s
    by (simp add: render_route_no_stops [OF assms(2) m])
  with assms(1) have "\<not> completed (foreach_from 0 (render_route surf) rs s)" for s
    by (intro foreach_from_not_completed [of r]) simp_all
  from try_fetchRoutesData_thrown [of surf rs s0, OF this] show ?thesis
    by auto
qed





section \<open>Numbered markers and bounds extensions\<close>

lemma last_string_of_nat: "last (string_of_nat n) = digit (n mod 10)"
  by (subst string_of_nat.simps) simp

lemma digit_in_digits: "d < 10 \<Longrightarrow> digit d \<in> set ''0123456789''"
  unfolding digit_def by (rule nth_mem) simp

lemma string_of_nat_not_School: "string_of_nat n \<noteq> ''School''"
proof
  assume "string_of_nat n = ''School''"
  then have "last (string_of_nat n) = CHR ''l''" by simp
  then have "digit (n mod 10) = CHR ''l''" by (simp add: last_string_of_nat)
  with digit_in_digits [of "n mod 10"] show False by simp
qed

lemma filter_is_numbered_stop_markers: "filter is_numbered (stop_markers c n sts) = stop_markers c n sts"
  unfolding filter_id_conv by (auto simp: stop_markers_def string_of_nat_not_School)

lemma filter_is_numbered_route_markers:
  "filter is_numbered (route_markers i r) = stop_markers (getRouteColor i) 0 (stops r)"
  by (simp add: route_markers_def filter_is_numbered_stop_markers)

lemma length_stop_markers:
  "length (stop_markers c n sts) = length (filter (\<lambda>st. valid_coordinates (location st)) sts)"
proof (induction sts arbitrary: n)
  case Nil
  show ?case by (simp add: stop_markers_def)
next
  case (Cons st sts)
  from Cons.IH [of "Suc n"] show ?case
    by (simp add: stop_markers_Cons [of c n st sts]) (simp add: stop_markers_def)
qed

lemma filter_is_numbered_routes:
  "filter is_numbered (concat (map (\<lambda>(i, r). route_markers i r) (enumerate n rs))) =
     concat (map (\<lambda>(i, r). stop_markers (getRouteColor i) 0 (stops r)) (enumerate n rs))"
  by (induction rs arbitrary: n) (simp_all add: filter_is_numbered_route_markers)

lemma length_numbered_routes:
  "length (concat (map (\<lambda>(i, r). stop_markers (getRouteColor i) 0 (stops r)) (enumerate n rs))) =
     length (filter valid_coordinates (all_locations rs))"
  by (induction rs arbitrary: n)
     (simp_all add: all_locations_def length_stop_markers filter_map comp_def)

lemma length_all_extensions:
  "length (all_extensions rs) =
     length (all_locations rs) + length (filter valid_coordinates (all_locations rs)) + length rs"
proof -
  have "length (concat (map route_extensions rs)) =
          length (filter valid_coordinates (all_locations rs)) + length rs"
    by (induction rs) (simp_all add: route_extensions_def all_locations_def)
  then show ?thesis by (simp add: all_extensions_def)
qed

lemma route_markers_covered:
  assumes "stops r \<noteq> []"
  shows "marker_coordinates ` set (route_markers i r)
           \<subseteq> set (map location (stops r)) \<union> set (route_extensions r)"
proof -
  from assms have "js_index (map location (stops r)) 0 \<in> set (map location (stops r))"
    by (cases "stops r") (simp_all add: js_index_def)
  moreover have "marker_coordinates ` set (stop_markers c 0 (stops r)) \<subseteq> set (route_extensions r)" for c
    by (auto simp: stop_markers_def route_extensions_def in_set_enumerate_eq)
  ultimately show ?thesis
    by (auto simp: route_markers_def route_extensions_def)
qed

lemma enumerate_snd: "(i, r) \<in> set (enumerate n rs) \<Longrightarrow> r \<in> set rs"
  by (auto simp: in_set_enumerate_eq)

lemma all_markers_covered:
  assumes "\<forall>r\<in>set rs. stops r \<noteq> []"
  shows "marker_coordinates `
           set (map HomeMarker (all_locations rs) @ concat (map (\<lambda>(i, r). route_markers i r) (enumerate n rs)))
         \<subseteq> set (all_extensions rs)"
proof
  fix c
  assume "c \<in> marker_coordinates `
           set (map HomeMarker (all_locations rs) @ concat (map (\<lambda>(i, r). route_markers i r) (enumerate n rs)))"
  then consider "c \<in> set (all_locations rs)"
    | i r where "(i, r) \<in> set (enumerate n rs)" "c \<in> marker_coordinates ` set (route_markers i r)"
    by auto
  then show "c \<in> set (all_extensions rs)"
  proof cases
    case 1
    then show ?thesis by (simp add: all_extensions_def)
  next
    case 2
    from 2(1) have r: "r \<in> set rs" by (rule enumerate_snd)
    with assms have "stops r \<noteq> []" by blast
    from route_markers_covered [OF this, of i] 2(2)
    have "c \<in> set (map location (stops r)) \<union> set (route_extensions r)" by blast
    with r show ?thesis
      by (auto simp: all_extensions_def all_locations_def)
  qed
qed

lemma length_route_markers:
  "length (concat (map (\<lambda>(i, r). route_markers i r) (enumerate n rs))) =
     length rs + length (filter valid_coordinates (all_locations rs)) + length rs"
  by (induction rs arbitrary: n)
     (simp_all add: route_markers_def all_locations_def length_stop_markers filter_map comp_def)

section \<open>Selections\<close>

lemma colors_length: "length colors = 5"
  by (simp add: colors_def)

lemma set_visibility_layers:
  "layers (set_visibility k s a) i =
     (if i = a then map_option (\<lambda>l. l\<lparr>visibility := (if i = k then Visible else Hidden)\<rparr>) (layers s i)
      else layers s i)"
  by (simp add: set_visibility_def split: option.splits)

lemma foldl_set_visibility_layers:
  "layers (foldl (set_visibility k) s js) i =
     (if i \<in> set js
      then map_option (\<lambda>l. l\<lparr>visibility := (if i = k then Visible else Hidden)\<rparr>) (layers s i)
      else layers s i)"
proof (induction js arbitrary: s)
  case Nil
  show ?case by simp
next
  case (Cons a js)
  show ?case
    by (cases "layers s i") (auto simp: Cons.IH set_visibility_layers)
qed

lemma set_visibility_other:
  "routes (set_visibility k s a) = routes s"
  "activeRouteId (set_visibility k s a) = activeRouteId s"
  "markers (set_visibility k s a) = markers s"
  "pending (set_visibility k s a) = pending s"
  by (simp_all add: set_visibility_def split: option.splits)

lemma foldl_set_visibility_other:
  "routes (foldl (set_visibility k) s js) = routes s"
  "activeRouteId (foldl (set_visibility k) s js) = activeRouteId s"
  "markers (foldl (set_visibility k) s js) = markers s"
  "pending (foldl (set_visibility k) s js) = pending s"
  by (induction js arbitrary: s) (simp_all add: set_visibility_other)

lemma handleRouteClick_layers:
  "layers (handleRouteClick k s) i =
     (if i < length (routes s)
      then map_option (\<lambda>l. l\<lparr>visibility := (if i = k then Visible else Hidden)\<rparr>) (layers s i)
      else layers s i)"
  by (simp add: handleRouteClick_def foldl_set_visibility_layers)


lemma layers_of_routes_None: "layers_of_routes s \<Longrightarrow> \<not> i < length (routes s) \<Longrightarrow> layers s i = None"
  by (auto simp: layers_of_routes_def)


lemma visible_after_set:
  assumes "\<And>i. layers s' i = map_option (\<lambda>l. l\<lparr>visibility := (if i = k then Visible else Hidden)\<rparr>) (layers s i)"
  shows "visible_layers s' = (if layers s k = None then {} else {k})"
  using assms by (auto simp: visible_layers_def split: if_splits)




subsection \<open>Clicks and answers in any order\<close>

declare step.simps [simp del]

lemma run_snoc: "run (es @ [e]) s = step (run es s) e"
  by (simp add: run_def)

lemma run_append: "run (es @ es') s = run es' (run es s)"
  by (simp add: run_def)

lemma run_Cons: "run (e # es) s = run es (step s e)"
  by (simp add: run_def)









text \<open>An answer changes the line layers, the console and the waiting calls only.\<close>

lemma answers_same_drawing: "list_all is_answer es \<Longrightarrow> same_drawing s (run es s)"
proof (induction es rule: rev_induct)
  case Nil
  show ?case by (simp add: run_def same_drawing_def)
next
  case (snoc e es)
  then obtain i a where e: "e = Answer i a"
    by (cases e) simp_all
  have "same_drawing t (step t (Answer i a))" for t
    by (simp add: step.simps same_drawing_def resume_fetchRouteDirections_def
        split: option.splits dir_result.splits)
  from this [of "run es s"] snoc show ?case
    unfolding run_snoc e by (simp add: same_drawing_def)
qed

section \<open>The sample inputs\<close>

text \<open>
  The definitions that evaluate a load of a sample payload.
\<close>

lemmas eval_defs = fetchRoutesData_def try_fetchRoutesData_def demo_routes_def mk_route_def mk_stop_def
  lnglat_def strict_def initial_view_def collect_route_def home_marker_def addStudentHomeMarker_def
  bounds_extend_def render_route_def addDriverMarker_def addStopMarker_def place_stop_def js_index_def
  fetchRouteDirections_def fitBounds_def resume_fetchRouteDirections_def run_def step.simps Let_def

lemma string_of_nat_1: "string_of_nat (Suc 0) = ''1''"
  by code_simp

section \<open>The derived walk list\<close>

text \<open>
  C1. For a payload that passes the check, the list of students requiring a walk is
  the concatenation, in the order of the routes, of each route's stops that require a
  walk, in their order and with repetitions; its length is the number of such stops in
  all routes. This holds whatever the map does with the markers afterwards.
\<close>

theorem walk_list:
  "studentsRequiringWalk (fetchRoutesData surf (Body (Some True) (Some rs)) s0) =
     concat (map (\<lambda>r. filter requires_walk (stops r)) rs)
   \<and> length (studentsRequiringWalk (fetchRoutesData surf (Body (Some True) (Some rs)) s0)) =
     length (filter requires_walk (concat (map stops rs)))"
proof -
  have "studentsRequiringWalk (fetchRoutesData surf (Body (Some True) (Some rs)) s0) =
     concat (map (\<lambda>r. filter requires_walk (stops r)) rs)"
    by (simp add: fetchRoutesData_inv [of studentsRequiringWalk] start_render_def)
  then show ?thesis
    by (simp add: filter_concat comp_def)
qed

text \<open>
  In the sample payload, Bob is the one student who requires a walk.
\<close>

theorem walk_list_witness:
  "map student_name
     (studentsRequiringWalk (fetchRoutesData strict (Body (Some True) (Some demo_routes)) initial_view))
     = [''Bob'']"
  using walk_list [of strict demo_routes initial_view]
  by (simp add: demo_routes_def mk_route_def mk_stop_def)

section \<open>Selecting a route\<close>

text \<open>
  C2. Selecting the route \<open>k\<close> stores \<open>k\<close> as the active index and sets the visibility
  of every line layer there is to visible when its index is \<open>k\<close> and to none otherwise; an
  index without a layer stays without one. So when the layer \<open>k\<close> exists, it is the one
  visible layer afterwards. The line layers are those of routes of the list, as they are
  after a load and whatever clicks and directions answers follow it
  (\<open>fetchRoutesData_lines_wf\<close>, \<open>lines_wf_run\<close>).
\<close>

theorem selectRoute_visibility:
  assumes "layers_of_routes s"
  shows "activeRouteId (handleRouteClick k s) = Some k
    \<and> (\<forall>i. layers (handleRouteClick k s) i =
          map_option (\<lambda>l. l\<lparr>visibility := (if i = k then Visible else Hidden)\<rparr>) (layers s i))
    \<and> (layers s k \<noteq> None \<longrightarrow> visible_layers (handleRouteClick k s) = {k})"
proof -
  have 1: "activeRouteId (handleRouteClick k s) = Some k"
    by (simp add: handleRouteClick_def foldl_set_visibility_other)
  have 2: "layers (handleRouteClick k s) i =
          map_option (\<lambda>l. l\<lparr>visibility := (if i = k then Visible else Hidden)\<rparr>) (layers s i)" for i
    using layers_of_routes_None [OF assms, of i] by (simp add: handleRouteClick_layers)
  from visible_after_set [of "handleRouteClick k s" k s, OF 2] 1 2 show ?thesis by simp
qed

text \<open>
  After the load of the sample payload and the answers to both directions requests, both
  routes have a line; selecting route 1 leaves its line as the only visible one.
\<close>

theorem selectRoute_visibility_witness:
  "layers_of_routes
     (run [Answer 0 (DirGeometry []), Answer 1 (DirGeometry [])]
        (fetchRoutesData strict (Body (Some True) (Some demo_routes)) initial_view))
   \<and> activeRouteId
       (handleRouteClick 1
          (run [Answer 0 (DirGeometry []), Answer 1 (DirGeometry [])]
             (fetchRoutesData strict (Body (Some True) (Some demo_routes)) initial_view)))
       = Some 1
   \<and> visible_layers
       (handleRouteClick 1
          (run [Answer 0 (DirGeometry []), Answer 1 (DirGeometry [])]
             (fetchRoutesData strict (Body (Some True) (Some demo_routes)) initial_view)))
       = {1}"
proof -
  let ?s = "run [Answer 0 (DirGeometry []), Answer 1 (DirGeometry [])]
        (fetchRoutesData strict (Body (Some True) (Some demo_routes)) initial_view)"
  have wf: "layers_of_routes ?s"
    by (simp add: layers_of_routes_def eval_defs)
  have ex: "layers ?s 1 \<noteq> None"
    by (simp add: eval_defs)
  from selectRoute_visibility [OF wf, of 1] wf ex show ?thesis by simp
qed

section \<open>Failure of the route request\<close>

text \<open>
  C3. When the request fails, or the answer has no true \<open>success\<close> or no array as
  \<open>data\<close>, the load draws no marker, adds no layer, fits no bounds and stores no derived
  state; it alerts the user once, and the route request it sent is its only request.
\<close>

theorem load_failure_aborts:
  assumes "resp = Rejected m
    \<or> (m = ''Invalid route data format''
        \<and> (\<exists>success data. resp = Body success data \<and> (success \<noteq> Some True \<or> data = None)))"
  shows "markers (fetchRoutesData surf resp s0) = markers s0
    \<and> layers (fetchRoutesData surf resp s0) = layers s0
    \<and> fitCalls (fetchRoutesData surf resp s0) = fitCalls s0
    \<and> routes (fetchRoutesData surf resp s0) = routes s0
    \<and> studentsRequiringWalk (fetchRoutesData surf resp s0) = studentsRequiringWalk s0
    \<and> allStudentLocations (fetchRoutesData surf resp s0) = allStudentLocations s0
    \<and> alerts (fetchRoutesData surf resp s0) = alerts s0 @ [''Failed to fetch routes: '' @ m]
    \<and> requests (fetchRoutesData surf resp s0) = requests s0 @ [RoutesRequest]"
  using assms
  by (auto simp: fetchRoutesData_def try_fetchRoutesData_def Let_def split: option.splits)

text \<open>
  An answer whose \<open>success\<close> is false, though its \<open>data\<close> are the sample routes.
\<close>

theorem load_failure_aborts_witness:
  "markers (fetchRoutesData strict (Body (Some False) (Some demo_routes)) initial_view) = []
   \<and> fitCalls (fetchRoutesData strict (Body (Some False) (Some demo_routes)) initial_view) = []
   \<and> alerts (fetchRoutesData strict (Body (Some False) (Some demo_routes)) initial_view)
       = [''Failed to fetch routes: Invalid route data format'']
   \<and> requests (fetchRoutesData strict (Body (Some False) (Some demo_routes)) initial_view)
       = [RoutesRequest]"
  using load_failure_aborts [of "Body (Some False) (Some demo_routes)" "''Invalid route data format''"
      strict initial_view]
  by (simp add: initial_view_def)

section \<open>Stop markers\<close>

text \<open>
  C4, as amended. In a load that runs to its end, the numbered markers on the map are,
  route by route and in the order of the stops, those of the stops whose coordinates are
  an array of two numbers neither of which is \<open>NaN\<close> (an infinite number passes), each
  with its position in the route counted from 1; there are as many as such stops in all
  routes, and every other stop is logged as invalid and skipped.
\<close>

theorem stop_markers_placed:
  assumes "completed (try_fetchRoutesData surf (Body (Some True) (Some rs)) s0)"
  shows "filter is_numbered (markers (fetchRoutesData surf (Body (Some True) (Some rs)) s0)) =
       filter is_numbered (markers s0)
         @ concat (map (\<lambda>(i, r). stop_markers (getRouteColor i) 0 (stops r)) (enumerate 0 rs))
    \<and> length (filter is_numbered (markers (fetchRoutesData surf (Body (Some True) (Some rs)) s0))) =
       length (filter is_numbered (markers s0)) + length (filter valid_coordinates (all_locations rs))
    \<and> filter is_invalid_log (console (fetchRoutesData surf (Body (Some True) (Some rs)) s0)) =
       filter is_invalid_log (console s0) @ map InvalidCoordinatesForStop (concat (map invalid_stops rs))"
proof -
  from assms obtain s' where n: "try_fetchRoutesData surf (Body (Some True) (Some rs)) s0 = Normal s'"
    by (auto simp: completed_iff)
  have 1: "filter is_numbered (markers s') = filter is_numbered (markers s0)
         @ concat (map (\<lambda>(i, r). stop_markers (getRouteColor i) 0 (stops r)) (enumerate 0 rs))"
    by (simp add: try_fetchRoutesData_Normal(1) [OF n] filter_is_numbered_routes comp_def)
  show ?thesis
    unfolding fetchRoutesData_completed [OF n]
    using 1 try_fetchRoutesData_Normal(4) [OF n]
    by (simp add: length_numbered_routes)
qed

text \<open>
  A route whose first stop has three coordinates and is skipped; the second stop keeps
  its number 2.
\<close>

theorem stop_markers_placed_witness:
  "completed (try_fetchRoutesData strict (Body (Some True) (Some altitude_routes)) initial_view)
   \<and> filter is_numbered
        (markers (fetchRoutesData strict (Body (Some True) (Some altitude_routes)) initial_view))
      = [StopMarker (lnglat 11 21) ''2'' ''#FF0000'' False ''Bob'']
   \<and> filter is_invalid_log
        (console (fetchRoutesData strict (Body (Some True) (Some altitude_routes)) initial_view))
      = [InvalidCoordinatesForStop (mk_stop 1 ''Ann'' (JArray [Finite 10, Finite 20, Finite 300]) False)]"
proof -
  have h: "completed (try_fetchRoutesData strict (Body (Some True) (Some altitude_routes)) initial_view)"
    by (simp add: eval_defs altitude_routes_def)
  have 2: "string_of_nat (Suc (Suc 0)) = ''2''" by code_simp
  from stop_markers_placed [OF h] h show ?thesis
    by (simp add: initial_view_def altitude_routes_def mk_route_def mk_stop_def lnglat_def
        stop_markers_def invalid_stops_def enumerate_eq_zip upt_rec [of 0] upt_rec [of 1]
        getRouteColor_def colors_def 2)
qed

text \<open>
  C4 as stated fails: the pair \<open>[Infinity, 0]\<close> is not finite, passes the test of the
  code and gets its numbered marker.
\<close>

theorem infinite_coordinate_marked:
  "valid_coordinates (JArray [PosInfinity, Finite 0])
   \<and> StopMarker (JArray [PosInfinity, Finite 0]) ''1'' ''#FF0000'' False ''Ann''
       \<in> set (markers (fetchRoutesData strict (Body (Some True) (Some far_routes)) initial_view))"
  by (simp add: eval_defs far_routes_def string_of_nat_1 colors_def getRouteColor_def)

section \<open>A malformed coordinate and the load\<close>

text \<open>
  C5 says that an invalid stop coordinate never aborts the load. The code tests a
  stop's coordinates only before the numbered marker; the home marker and the driver
  marker get them untested. So on a map that refuses the pair \<open>[NaN, 12.3]\<close>, the load of a
  route whose first stop has these coordinates throws at the home marker: nothing is
  drawn, not even the marker of the second, valid stop, the bounds are not fitted and the
  user gets the alert (see also \<open>refused_location_aborts\<close>).
\<close>

theorem malformed_stop_aborts:
  "markers (fetchRoutesData strict (Body (Some True) (Some nan_routes)) initial_view) = []
   \<and> fitCalls (fetchRoutesData strict (Body (Some True) (Some nan_routes)) initial_view) = []
   \<and> console (fetchRoutesData strict (Body (Some True) (Some nan_routes)) initial_view)
       = [ErrorFetchingRoutes ''Invalid LngLat object'']
   \<and> alerts (fetchRoutesData strict (Body (Some True) (Some nan_routes)) initial_view)
       = [''Failed to fetch routes: Invalid LngLat object'']"
  by (simp add: eval_defs nan_routes_def)

section \<open>Fitting the bounds\<close>

text \<open>
  C6. A load that runs to its end calls \<open>fitBounds\<close> once, after all routes are drawn,
  with padding 20 and maximal zoom 15, on the bounds accumulator of the load; the markers
  it has placed by then are one home marker per stop and, per route, a driver marker, the
  numbered markers and the school marker, and the coordinates of every one of them are
  among the points the bounds were extended with (the driver marker sits on the first
  stop, whose coordinates were extended for its home marker). A driver marker at
  \<open>undefined\<close> is excluded: the map refuses it, so that a load that ran to its end had no
  route without stops, or no route is without stops.
\<close>

theorem fitBounds_once:
  assumes "completed (try_fetchRoutesData surf (Body (Some True) (Some rs)) s0)"
    and "setLngLat_error surf JUndefined \<noteq> None \<or> (\<forall>r\<in>set rs. stops r \<noteq> [])"
  shows "fitCalls (fetchRoutesData surf (Body (Some True) (Some rs)) s0) =
       fitCalls s0 @ [\<lparr>fit_bounds = all_extensions rs, padding = 20, maxZoom = 15\<rparr>]
    \<and> markers (fetchRoutesData surf (Body (Some True) (Some rs)) s0) =
       markers s0 @ map HomeMarker (all_locations rs)
         @ concat (map (\<lambda>(i, r). route_markers i r) (enumerate 0 rs))
    \<and> length (markers (fetchRoutesData surf (Body (Some True) (Some rs)) s0)) =
       length (markers s0) + length (all_locations rs) + length rs
         + length (filter valid_coordinates (all_locations rs)) + length rs
    \<and> marker_coordinates `
         set (drop (length (markers s0)) (markers (fetchRoutesData surf (Body (Some True) (Some rs)) s0)))
       \<subseteq> set (all_extensions rs)"
proof -
  from assms(1) obtain s' where n: "try_fetchRoutesData surf (Body (Some True) (Some rs)) s0 = Normal s'"
    by (auto simp: completed_iff)
  from assms have ne: "\<forall>r\<in>set rs. stops r \<noteq> []"
    using no_stops_not_completed [of _ rs surf s0] by blast
  note m = try_fetchRoutesData_Normal(1) [OF n]
  have "drop (length (markers s0)) (markers s') =
      map HomeMarker (all_locations rs) @ concat (map (\<lambda>(i, r). route_markers i r) (enumerate 0 rs))"
    by (simp add: m)
  with all_markers_covered [OF ne, of 0]
  have c: "marker_coordinates ` set (drop (length (markers s0)) (markers s')) \<subseteq> set (all_extensions rs)"
    by simp
  have l: "length (markers s') = length (markers s0) + length (all_locations rs) + length rs
         + length (filter valid_coordinates (all_locations rs)) + length rs"
    by (simp add: m length_route_markers)
  from c l m show ?thesis
    unfolding fetchRoutesData_completed [OF n]
    by (simp add: try_fetchRoutesData_Normal(3) [OF n])
qed

text \<open>
  The sample payload, two routes of three and two stops: 5 home, 2 driver, 5 numbered
  and 2 school markers, all of them within the bounds given to \<open>fitBounds\<close>.
\<close>

theorem fitBounds_once_witness:
  "completed (try_fetchRoutesData strict (Body (Some True) (Some demo_routes)) initial_view)
   \<and> fitCalls (fetchRoutesData strict (Body (Some True) (Some demo_routes)) initial_view) =
       [\<lparr>fit_bounds = all_extensions demo_routes, padding = 20, maxZoom = 15\<rparr>]
   \<and> length (markers (fetchRoutesData strict (Body (Some True) (Some demo_routes)) initial_view))
       = 5 + 2 + 5 + 2
   \<and> marker_coordinates `
       set (markers (fetchRoutesData strict (Body (Some True) (Some demo_routes)) initial_view))
       \<subseteq> set (all_extensions demo_routes)"
proof -
  have h: "completed (try_fetchRoutesData strict (Body (Some True) (Some demo_routes)) initial_view)"
    by (simp add: eval_defs)
  have u: "setLngLat_error strict JUndefined \<noteq> None"
    by (simp add: strict_def)
  have 14: "length (all_locations demo_routes) = 5" "length demo_routes = 2"
      "length (filter valid_coordinates (all_locations demo_routes)) = 5"
    by (simp_all add: all_locations_def demo_routes_def mk_route_def mk_stop_def lnglat_def)
  from fitBounds_once [OF h] u
  have "fitCalls (fetchRoutesData strict (Body (Some True) (Some demo_routes)) initial_view) =
       fitCalls initial_view @ [\<lparr>fit_bounds = all_extensions demo_routes, padding = 20, maxZoom = 15\<rparr>]
    \<and> length (markers (fetchRoutesData strict (Body (Some True) (Some demo_routes)) initial_view)) =
       length (markers initial_view) + length (all_locations demo_routes) + length demo_routes
         + length (filter valid_coordinates (all_locations demo_routes)) + length demo_routes
    \<and> marker_coordinates `
         set (drop (length (markers initial_view))
           (markers (fetchRoutesData strict (Body (Some True) (Some demo_routes)) initial_view)))
       \<subseteq> set (all_extensions demo_routes)"
    by blast
  with h 14 show ?thesis
    by (simp add: initial_view_def)
qed

section \<open>Route colors\<close>

text \<open>
  C7. The color of a route is the entry of a palette of five colors at the route's
  index modulo 5; so the routes \<open>i\<close> and \<open>i + 5\<close>, and any two routes whose indices differ by a
  multiple of 5, get the same color.
\<close>

theorem getRouteColor_periodic:
  "length colors = 5
   \<and> getRouteColor i = colors ! (i mod 5)
   \<and> getRouteColor (i + 5) = getRouteColor i
   \<and> (\<forall>k. getRouteColor (i + 5 * k) = getRouteColor i)"
  by (simp add: getRouteColor_def colors_length)

text \<open>
  The routes 7 and 12 are both green.
\<close>

theorem getRouteColor_periodic_witness:
  "getRouteColor 7 = ''#00FF00'' \<and> getRouteColor (7 + 5) = getRouteColor 7"
  using getRouteColor_periodic [of 7] by (simp add: colors_def)

section \<open>Sequences of selections\<close>




section \<open>The driver marker\<close>

text \<open>
  C9. The driver marker of a route is placed at \<open>stops[0]\<close> without a test: in a route
  that is drawn to its end it is the first marker of the route and sits at the first
  stop's coordinates, or at \<open>undefined\<close> when the route has no stop. Where the map refuses
  \<open>undefined\<close>, drawing a route without stops throws at once, and a load whose payload has
  such a route does not run to its end: it alerts the user and never fits the bounds.
\<close>

theorem driver_marker_first_stop:
  "(render_route surf r i s = Normal s' \<longrightarrow>
      markers s' ! length (markers s) =
        DriverMarker (case stops r of [] \<Rightarrow> JUndefined | st # sts \<Rightarrow> location st) (getRouteColor i))
   \<and> (stops r = [] \<and> setLngLat_error surf JUndefined = Some m \<longrightarrow>
        render_route surf r i s = Thrown m s)
   \<and> (r \<in> set rs \<and> stops r = [] \<and> setLngLat_error surf JUndefined \<noteq> None \<longrightarrow>
        \<not> completed (try_fetchRoutesData surf (Body (Some True) (Some rs)) s0)
        \<and> fitCalls (fetchRoutesData surf (Body (Some True) (Some rs)) s0) = fitCalls s0
        \<and> length (alerts (fetchRoutesData surf (Body (Some True) (Some rs)) s0)) =
            length (alerts s0) + 1)"
proof (intro conjI impI)
  assume "render_route surf r i s = Normal s'"
  from render_route_Normal_fields(1) [OF this]
  show "markers s' ! length (markers s) =
        DriverMarker (case stops r of [] \<Rightarrow> JUndefined | st # sts \<Rightarrow> location st) (getRouteColor i)"
    by (simp add: route_markers_def js_index_def split: list.splits)
next
  assume "stops r = [] \<and> setLngLat_error surf JUndefined = Some m"
  then show "render_route surf r i s = Thrown m s"
    by (simp add: render_route_no_stops)
next
  assume a: "r \<in> set rs \<and> stops r = [] \<and> setLngLat_error surf JUndefined \<noteq> None"
  then obtain m' where m': "setLngLat_error surf JUndefined = Some m'" by auto
  from a have "\<not> completed (render_route surf r i s)" for i s
    by (simp add: render_route_no_stops [OF _ m'])
  with a have "\<not> completed (foreach_from 0 (render_route surf) rs s)" for s
    by (intro foreach_from_not_completed [of r]) simp_all
  from try_fetchRoutesData_thrown [of surf rs s0, OF this]
  obtain m s1 where t: "try_fetchRoutesData surf (Body (Some True) (Some rs)) s0 = Thrown m s1"
    and f: "fitCalls s1 = fitCalls s0" "alerts s1 = alerts s0"
    by blast
  from t show "\<not> completed (try_fetchRoutesData surf (Body (Some True) (Some rs)) s0)"
    by simp
  from t f show "fitCalls (fetchRoutesData surf (Body (Some True) (Some rs)) s0) = fitCalls s0"
    by (simp add: fetchRoutesData_def)
  from t f show "length (alerts (fetchRoutesData surf (Body (Some True) (Some rs)) s0)) =
            length (alerts s0) + 1"
    by (simp add: fetchRoutesData_def)
qed

text \<open>
  A route with one stop, followed by a route without stops.
\<close>

theorem driver_marker_first_stop_witness:
  "markers (state_of (render_route strict (empty_routes ! 0) 0 initial_view)) ! 0 =
      DriverMarker (lnglat 10 20) ''#FF0000''
   \<and> render_route strict (empty_routes ! 1) 1 initial_view =
      Thrown ''Invalid LngLat object'' initial_view
   \<and> \<not> completed (try_fetchRoutesData strict (Body (Some True) (Some empty_routes)) initial_view)
   \<and> fitCalls (fetchRoutesData strict (Body (Some True) (Some empty_routes)) initial_view) = []
   \<and> length (alerts (fetchRoutesData strict (Body (Some True) (Some empty_routes)) initial_view)) = 1"
proof -
  have c: "completed (render_route strict (empty_routes ! 0) 0 initial_view)"
    by (simp add: eval_defs empty_routes_def)
  then have n: "render_route strict (empty_routes ! 0) 0 initial_view =
      Normal (state_of (render_route strict (empty_routes ! 0) 0 initial_view))"
    by (cases "render_route strict (empty_routes ! 0) 0 initial_view") simp_all
  have e: "empty_routes ! 1 \<in> set empty_routes" "stops (empty_routes ! 1) = []"
      "stops (empty_routes ! 0) = [mk_stop 1 ''Ann'' (lnglat 10 20) False]"
    by (simp_all add: empty_routes_def mk_route_def)
  have u: "setLngLat_error strict JUndefined = Some ''Invalid LngLat object''"
    by (simp add: strict_def)
  have col: "getRouteColor 0 = ''#FF0000''"
    by (simp add: getRouteColor_def colors_def)
  from driver_marker_first_stop [of strict "empty_routes ! 0" 0 initial_view
      "state_of (render_route strict (empty_routes ! 0) 0 initial_view)"] n
  have 1: "markers (state_of (render_route strict (empty_routes ! 0) 0 initial_view)) ! 0 =
      DriverMarker (lnglat 10 20) ''#FF0000''"
    by (simp add: e col initial_view_def mk_stop_def)
  from driver_marker_first_stop [of strict "empty_routes ! 1" 1 initial_view _
      "''Invalid LngLat object''" empty_routes initial_view] e u
  have 2: "render_route strict (empty_routes ! 1) 1 initial_view =
      Thrown ''Invalid LngLat object'' initial_view
   \<and> \<not> completed (try_fetchRoutesData strict (Body (Some True) (Some empty_routes)) initial_view)
   \<and> fitCalls (fetchRoutesData strict (Body (Some True) (Some empty_routes)) initial_view) = []
   \<and> length (alerts (fetchRoutesData strict (Body (Some True) (Some empty_routes)) initial_view)) = 1"
    by (simp add: initial_view_def)
  from 1 2 show ?thesis by simp
qed

section \<open>Home markers\<close>

text \<open>
  C10. The home markers and their bounds extensions are made for every stop's
  coordinates, untested and before any route is drawn: when the map accepts these
  coordinates, the markers of the load begin with one home marker per stop and the bounds
  with the stops' coordinates, so every stop, also one whose coordinates fail the test
  later, has a home marker and has extended the bounds.
\<close>

theorem home_markers_unvalidated:
  assumes "\<forall>c\<in>set (all_locations rs). setLngLat_error surf c = None \<and> extend_error surf c = None"
  shows "allStudentLocations (fetchRoutesData surf (Body (Some True) (Some rs)) s0) = all_locations rs
    \<and> prefix (markers s0 @ map HomeMarker (all_locations rs))
        (markers (fetchRoutesData surf (Body (Some True) (Some rs)) s0))
    \<and> prefix (all_locations rs) (bounds (fetchRoutesData surf (Body (Some True) (Some rs)) s0))
    \<and> (\<forall>r\<in>set rs. \<forall>st\<in>set (stops r).
          HomeMarker (location st) \<in> set (markers (fetchRoutesData surf (Body (Some True) (Some rs)) s0))
          \<and> location st \<in> set (bounds (fetchRoutesData surf (Body (Some True) (Some rs)) s0)))"
proof -
  let ?s' = "fetchRoutesData surf (Body (Some True) (Some rs)) s0"
  let ?s2 = "(start_render rs s0)\<lparr>markers := markers (start_render rs s0) @ map HomeMarker (all_locations rs),
      bounds := bounds (start_render rs s0) @ all_locations rs\<rparr>"
  have "grows ?s2 (state_of (and_then (foreach_from 0 (render_route surf) rs ?s2) (fitBounds surf)))"
    by (intro and_then_grows foreach_from_grows render_route_grows fitBounds_grows)
  then have g: "grows ?s2 (state_of (try_fetchRoutesData surf (Body (Some True) (Some rs)) s0))"
    by (simp add: try_fetchRoutesData_unfold foreach_home_accepted [OF assms])
  have 1: "allStudentLocations ?s' = all_locations rs"
    by (simp add: fetchRoutesData_inv [of allStudentLocations] start_render_def)
  from g have 2: "prefix (markers s0 @ map HomeMarker (all_locations rs)) (markers ?s')"
    and 3: "prefix (all_locations rs) (bounds ?s')"
    by (simp_all add: grows_def fetchRoutesData_markers_bounds start_render_def)
  have 4: "HomeMarker (location st) \<in> set (markers ?s') \<and> location st \<in> set (bounds ?s')"
    if "r \<in> set rs" "st \<in> set (stops r)" for r st
  proof -
    from that have "location st \<in> set (all_locations rs)"
      by (auto simp: all_locations_def)
    with set_mono_prefix [OF 2] set_mono_prefix [OF 3] show ?thesis by auto
  qed
  from 1 2 3 4 show ?thesis by blast
qed

text \<open>
  The stop with three coordinates fails the test and has its home marker.
\<close>

theorem home_markers_unvalidated_witness:
  "\<not> valid_coordinates (JArray [Finite 10, Finite 20, Finite 300])
   \<and> HomeMarker (JArray [Finite 10, Finite 20, Finite 300])
       \<in> set (markers (fetchRoutesData strict (Body (Some True) (Some altitude_routes)) initial_view))
   \<and> JArray [Finite 10, Finite 20, Finite 300]
       \<in> set (bounds (fetchRoutesData strict (Body (Some True) (Some altitude_routes)) initial_view))
   \<and> prefix [HomeMarker (JArray [Finite 10, Finite 20, Finite 300]), HomeMarker (lnglat 11 21)]
       (markers (fetchRoutesData strict (Body (Some True) (Some altitude_routes)) initial_view))"
proof -
  have l: "all_locations altitude_routes = [JArray [Finite 10, Finite 20, Finite 300], lnglat 11 21]"
    by (simp add: all_locations_def altitude_routes_def mk_route_def mk_stop_def)
  have h: "\<forall>c\<in>set (all_locations altitude_routes).
      setLngLat_error strict c = None \<and> extend_error strict c = None"
    by (simp add: l strict_def lnglat_def)
  have m: "hd altitude_routes \<in> set altitude_routes"
      "mk_stop 1 ''Ann'' (JArray [Finite 10, Finite 20, Finite 300]) False \<in> set (stops (hd altitude_routes))"
      "location (mk_stop 1 ''Ann'' (JArray [Finite 10, Finite 20, Finite 300]) False)
         = JArray [Finite 10, Finite 20, Finite 300]"
    by (simp_all add: altitude_routes_def mk_route_def mk_stop_def)
  from home_markers_unvalidated [OF h, of initial_view] m
  have "HomeMarker (JArray [Finite 10, Finite 20, Finite 300])
       \<in> set (markers (fetchRoutesData strict (Body (Some True) (Some altitude_routes)) initial_view))
   \<and> JArray [Finite 10, Finite 20, Finite 300]
       \<in> set (bounds (fetchRoutesData strict (Body (Some True) (Some altitude_routes)) initial_view))"
    by metis
  moreover from home_markers_unvalidated [OF h, of initial_view]
  have "prefix [HomeMarker (JArray [Finite 10, Finite 20, Finite 300]), HomeMarker (lnglat 11 21)]
       (markers (fetchRoutesData strict (Body (Some True) (Some altitude_routes)) initial_view))"
    by (simp add: l initial_view_def)
  ultimately show ?thesis by simp
qed

end
